theory Spec2Isabelle
  imports Main "HOL-Library.Word" "HOL-Library.AList"
begin

section \<open>Data model of package xattr\<close>

text \<open>
  A Go \<open>byte\<close> is an 8-bit word. A Go \<open>string\<close> is an immutable sequence of bytes and
  is modelled by the HOL type \<open>string\<close>, whose characters are 8-bit values. A slice
  (\<open>[]byte\<close>, \<open>[]string\<close>) is \<open>None\<close> when it is the nil slice and \<open>Some xs\<close> when it
  is a non-nil slice with the elements \<open>xs\<close>; the distinction is kept because \<open>Get\<close>
  returns \<open>nil\<close> on failure and \<open>[]byte{}\<close> for an attribute of size zero.
\<close>

type_synonym byte = "8 word"

type_synonym 'a slice = "'a list option"

definition elems :: "'a slice \<Rightarrow> 'a list" where
  "elems s = (case s of None \<Rightarrow> [] | Some xs \<Rightarrow> xs)"

text \<open>The conversion \<open>string(b)\<close> of a byte sequence copies the bytes one by one.\<close>

definition string_of_bytes :: "byte list \<Rightarrow> string" where
  "string_of_bytes bs = map (\<lambda>b. char_of (unat b)) bs"

text \<open>
  A Go call either returns its results or panics (a slice expression out of range, a
  method call through a nil pointer or a nil interface).
\<close>

datatype 'a outcome = Panics | Returns 'a

text \<open>
  The values of the interface type \<open>error\<close>: the nil interface, a \<open>syscall.Errno\<close> (an
  unsigned number), a \<open>*XAttrError\<close>, and a value of any other dynamic type, of which
  only the message of its \<open>Error()\<close> method is kept. A \<open>*XAttrError\<close> is the nil pointer
  or points to a struct with the four fields of the source; the field \<open>Err\<close> is again an
  \<open>error\<close>.
\<close>

datatype error =
    Nil_error
  | Errno nat
  | Other_error string
  | Of_XAttrError XAttrError_ptr
and XAttrError_ptr =
    Nil_ptr
  | Ptr XAttrError
and XAttrError =
    XAttrError (Op: string) (Path: string) (Attr: string) (Err: error)

text \<open>
  \<open>(*XAttrError).Error\<close>, and the dynamic dispatch of \<open>Error()\<close> on an \<open>error\<close>. Reading
  a field through the nil pointer panics, and so does a method call on the nil interface.
  The message of a \<open>syscall.Errno\<close> comes from the table of the Go library, the
  parameter \<open>strerror\<close>.
\<close>

fun XAttrError_Error :: "(nat \<Rightarrow> string) \<Rightarrow> XAttrError_ptr \<Rightarrow> string outcome"
  and error_Error :: "(nat \<Rightarrow> string) \<Rightarrow> error \<Rightarrow> string outcome" where
  "XAttrError_Error strerror Nil_ptr = Panics"
| "XAttrError_Error strerror (Ptr (XAttrError op path attr err)) =
     (case error_Error strerror err of
        Panics \<Rightarrow> Panics
      | Returns msg \<Rightarrow> Returns (op @ '' '' @ path @ '' '' @ attr @ '': '' @ msg))"
| "error_Error strerror Nil_error = Panics"
| "error_Error strerror (Errno n) = Returns (strerror n)"
| "error_Error strerror (Other_error msg) = Returns msg"
| "error_Error strerror (Of_XAttrError e) = XAttrError_Error strerror e"

text \<open>
  The two platform files define \<open>isNotExist\<close>, one with \<open>syscall.ENOATTR\<close> (Darwin) and
  one with \<open>syscall.ENODATA\<close> (the other platform of the package comment, Linux). The
  constants have the values of Go's \<open>syscall\<close> package on the respective platform. The
  comparison \<open>err.Err == syscall.ENOATTR\<close> is true when the dynamic type of \<open>err.Err\<close>
  is \<open>syscall.Errno\<close> and the numbers agree.
\<close>

datatype goos = Darwin | Linux

definition ENOATTR :: error where
  "ENOATTR = Errno 93"

definition ENODATA :: error where
  "ENODATA = Errno 61"

fun isNotExist :: "goos \<Rightarrow> XAttrError_ptr \<Rightarrow> bool outcome" where
  "isNotExist os Nil_ptr = Panics"
| "isNotExist Darwin (Ptr err) = Returns (Err err = ENOATTR)"
| "isNotExist Linux (Ptr err) = Returns (Err err = ENODATA)"

text \<open>\<open>IsNotExist\<close>: the type assertion \<open>err.(*XAttrError)\<close> succeeds on a nil pointer too.\<close>

definition IsNotExist :: "goos \<Rightarrow> error \<Rightarrow> bool outcome" where
  "IsNotExist os err =
     (case err of
        Of_XAttrError e \<Rightarrow> isNotExist os e
      | _ \<Rightarrow> Returns False)"

text \<open>The "attribute absent" error constant of a platform, as the two files choose it.\<close>

definition attr_absent :: "goos \<Rightarrow> error" where
  "attr_absent os = (case os of Darwin \<Rightarrow> ENOATTR | Linux \<Rightarrow> ENODATA)"

section \<open>The platform adapter\<close>

text \<open>
  The facade calls four adapter functions \<open>get\<close>, \<open>set\<close>, \<open>list\<close> and \<open>remove\<close>, reads
  the constant \<open>prefix\<close> and calls \<open>stripPrefix\<close>. Their bodies are not part of the source
  at hand (they wrap system calls), so the facade is modelled over an arbitrary platform:
  a record of the six, over an arbitrary type \<open>'w\<close> of states of the world outside the
  process (the file system and whatever else changes it between two calls).

  \<^item> \<open>get path attr dest w\<close> returns the two results \<open>(sz, err)\<close> of the Go function, the
    bytes of \<open>dest\<close> after the call (the callee writes into the caller's buffer; it cannot
    change its length) and the new state of the world. \<open>list_op\<close> likewise.
  \<^item> \<open>set_op\<close> and \<open>remove_op\<close> return the \<open>error\<close> and the new state of the world.
  \<^item> \<open>stripPrefix\<close> is a function on name slices that may panic.
\<close>

record 'w platform =
  prefix :: string
  stripPrefix :: "string slice \<Rightarrow> string slice outcome"
  get :: "string \<Rightarrow> string \<Rightarrow> byte slice \<Rightarrow> 'w \<Rightarrow> (int \<times> error) \<times> byte list \<times> 'w"
  set_op :: "string \<Rightarrow> string \<Rightarrow> byte slice \<Rightarrow> int \<Rightarrow> 'w \<Rightarrow> error \<times> 'w"
  list_op :: "string \<Rightarrow> byte slice \<Rightarrow> 'w \<Rightarrow> (int \<times> error) \<times> byte list \<times> 'w"
  remove_op :: "string \<Rightarrow> string \<Rightarrow> 'w \<Rightarrow> error \<times> 'w"

section \<open>The decoder of NUL terminated names\<close>

text \<open>
  The slice expression \<open>s[lo:hi]\<close> on a slice whose capacity is its length: it panics
  unless \<open>0 \<le> lo \<le> hi \<le> len(s)\<close>. The bounds are Go \<open>int\<close>s; no arithmetic of the
  package can overflow them (the only addition is \<open>index + 1\<close> with \<open>index < len(buf)\<close>),
  so they are unbounded integers here.
\<close>

definition slice_go :: "'a list \<Rightarrow> int \<Rightarrow> int \<Rightarrow> 'a list outcome" where
  "slice_go s lo hi =
     (if 0 \<le> lo \<and> lo \<le> hi \<and> hi \<le> int (length s)
      then Returns (take (nat (hi - lo)) (drop (nat lo) s))
      else Panics)"

text \<open>\<open>append(result, s)\<close>: appending to the nil slice gives a slice of one element.\<close>

definition append_go :: "'a slice \<Rightarrow> 'a \<Rightarrow> 'a slice" where
  "append_go s x = Some (elems s @ [x])"

text \<open>
  The loop \<open>for index, b := range buf\<close> of \<open>nullTermToStrings\<close>: \<open>rest\<close> is the part
  of \<open>buf\<close> not yet visited and \<open>index\<close> the position of its first byte; \<open>offset\<close> and
  \<open>result\<close> are the two variables the loop updates.
\<close>

fun nullTermLoop ::
  "byte list \<Rightarrow> int \<Rightarrow> byte list \<Rightarrow> int \<Rightarrow> string slice \<Rightarrow> string slice outcome" where
  "nullTermLoop buf index [] offset result = Returns result"
| "nullTermLoop buf index (b # rest) offset result =
     (if b = 0
      then (case slice_go buf offset index of
              Panics \<Rightarrow> Panics
            | Returns seg \<Rightarrow>
                nullTermLoop buf (index + 1) rest (index + 1)
                  (append_go result (string_of_bytes seg)))
      else nullTermLoop buf (index + 1) rest offset result)"

text \<open>
  \<open>nullTermToStrings\<close> reads only the elements of \<open>buf\<close>; the named result starts as
  the nil slice and \<open>offset\<close> as 0.
\<close>

definition nullTermToStrings :: "byte list \<Rightarrow> string slice outcome" where
  "nullTermToStrings buf = nullTermLoop buf 0 buf 0 None"

section \<open>The portable facade\<close>

text \<open>The four low-level operations.\<close>

definition Getxattr ::
  "'w platform \<Rightarrow> string \<Rightarrow> string \<Rightarrow> byte slice \<Rightarrow> 'w \<Rightarrow> (int \<times> error) \<times> byte list \<times> 'w" where
  "Getxattr P path attr dest w = get P path attr dest w"

definition Listxattr ::
  "'w platform \<Rightarrow> string \<Rightarrow> byte slice \<Rightarrow> 'w \<Rightarrow> (int \<times> error) \<times> byte list \<times> 'w" where
  "Listxattr P path dest w = list_op P path dest w"

definition Setxattr ::
  "'w platform \<Rightarrow> string \<Rightarrow> string \<Rightarrow> byte slice \<Rightarrow> int \<Rightarrow> 'w \<Rightarrow> error \<times> 'w" where
  "Setxattr P path attr data flags w = set_op P path attr data flags w"

definition Removexattr :: "'w platform \<Rightarrow> string \<Rightarrow> string \<Rightarrow> 'w \<Rightarrow> error \<times> 'w" where
  "Removexattr P path attr w = remove_op P path attr w"

text \<open>
  \<open>make([]byte, size)\<close> panics on a negative size and gives \<open>size\<close> zero bytes
  otherwise. (A size beyond the memory of the machine is outside the model.)
\<close>

definition make_bytes :: "int \<Rightarrow> byte list outcome" where
  "make_bytes n = (if n < 0 then Panics else Returns (replicate (nat n) 0))"

text \<open>
  \<open>Get\<close>. The parameter \<open>attr\<close> of the source is overwritten by \<open>prefix + attr\<close> in the
  first statement; here \<open>attr\<close> is the caller's name and \<open>attr'\<close> the variable after that
  assignment. Likewise \<open>size1\<close> and \<open>size2\<close> are the variable \<open>size\<close> after the first and
  the second call. The result is the pair the Go function returns, or a panic, together with
  the state of the world after the adapter calls made.
\<close>

definition Get ::
  "'w platform \<Rightarrow> string \<Rightarrow> string \<Rightarrow> 'w \<Rightarrow> (byte slice \<times> error) outcome \<times> 'w" where
  "Get P path attr w =
     (let attr' = prefix P @ attr in
      case Getxattr P path attr' None w of ((size1, err), _, w1) \<Rightarrow>
        if err \<noteq> Nil_error
        then (Returns (None, Of_XAttrError (Ptr (XAttrError ''getxattr'' path attr' err))), w1)
        else if size1 = 0
        then (Returns (Some [], Nil_error), w1)
        else
          (case make_bytes size1 of
             Panics \<Rightarrow> (Panics, w1)
           | Returns buf \<Rightarrow>
               (case Getxattr P path attr' (Some buf) w1 of ((size2, err2), buf2, w2) \<Rightarrow>
                  if err2 \<noteq> Nil_error
                  then (Returns (None,
                          Of_XAttrError (Ptr (XAttrError ''getxattr'' path attr' err2))), w2)
                  else
                    (case slice_go buf2 0 size2 of
                       Panics \<Rightarrow> (Panics, w2)
                     | Returns val \<Rightarrow> (Returns (Some val, Nil_error), w2)))))"

text \<open>\<open>List\<close>.\<close>

definition List ::
  "'w platform \<Rightarrow> string \<Rightarrow> 'w \<Rightarrow> (string slice \<times> error) outcome \<times> 'w" where
  "List P path w =
     (case Listxattr P path None w of ((size1, err), _, w1) \<Rightarrow>
        if err \<noteq> Nil_error
        then (Returns (None, Of_XAttrError (Ptr (XAttrError ''listxattr'' path [] err))), w1)
        else if size1 = 0
        then (Returns (Some [], Nil_error), w1)
        else
          (case make_bytes size1 of
             Panics \<Rightarrow> (Panics, w1)
           | Returns buf \<Rightarrow>
               (case Listxattr P path (Some buf) w1 of ((size2, err2), buf2, w2) \<Rightarrow>
                  if err2 \<noteq> Nil_error
                  then (Returns (None,
                          Of_XAttrError (Ptr (XAttrError ''listxattr'' path [] err2))), w2)
                  else
                    (case slice_go buf2 0 size2 of
                       Panics \<Rightarrow> (Panics, w2)
                     | Returns names_buf \<Rightarrow>
                         (case nullTermToStrings names_buf of
                            Panics \<Rightarrow> (Panics, w2)
                          | Returns names \<Rightarrow>
                              (case stripPrefix P names of
                                 Panics \<Rightarrow> (Panics, w2)
                               | Returns stripped \<Rightarrow> (Returns (stripped, Nil_error), w2)))))))"

text \<open>\<open>Set\<close> and \<open>Remove\<close>.\<close>

definition Set ::
  "'w platform \<Rightarrow> string \<Rightarrow> string \<Rightarrow> byte slice \<Rightarrow> 'w \<Rightarrow> error \<times> 'w" where
  "Set P path attr data w =
     (let attr' = prefix P @ attr in
      case Setxattr P path attr' data 0 w of (err, w1) \<Rightarrow>
        if err \<noteq> Nil_error
        then (Of_XAttrError (Ptr (XAttrError ''setxattr'' path attr' err)), w1)
        else (Nil_error, w1))"

definition Remove :: "'w platform \<Rightarrow> string \<Rightarrow> string \<Rightarrow> 'w \<Rightarrow> error \<times> 'w" where
  "Remove P path attr w =
     (let attr' = prefix P @ attr in
      case Removexattr P path attr' w of (err, w1) \<Rightarrow>
        if err \<noteq> Nil_error
        then (Of_XAttrError (Ptr (XAttrError ''removexattr'' path attr' err)), w1)
        else (Nil_error, w1))"

section \<open>Reference definitions for the properties\<close>

subsection \<open>What the decoder is specified to return\<close>

text \<open>
  The positions of the zero bytes of a buffer, in increasing order, and the segments they
  terminate: the \<open>k\<close>-th segment starts right after the previous zero byte (at 0 for the
  first one) and ends right before the \<open>k\<close>-th zero byte. Pairing the starts with the
  ends leaves the start after the last zero byte without a partner, so that bytes after
  the last zero byte belong to no segment.
\<close>

definition zero_positions :: "byte list \<Rightarrow> nat list" where
  "zero_positions buf = filter (\<lambda>i. buf ! i = 0) [0..<length buf]"

definition segment_bounds :: "nat list \<Rightarrow> (nat \<times> nat) list" where
  "segment_bounds zs = zip (0 # map Suc zs) zs"

definition terminated_segments :: "byte list \<Rightarrow> byte list list" where
  "terminated_segments buf =
     map (\<lambda>(lo, hi). take (hi - lo) (drop lo buf)) (segment_bounds (zero_positions buf))"

text \<open>
  The state of the decoder's loop after the bytes \<open>pre\<close> of \<open>buf\<close> have been visited:
  \<open>offset\<close> is the position after the last zero byte seen, and \<open>result\<close> holds the
  segments terminated so far (and is still nil when there is none).
\<close>

definition offset_after :: "byte list \<Rightarrow> nat" where
  "offset_after pre = last (0 # map Suc (zero_positions pre))"

definition result_after :: "byte list \<Rightarrow> byte list \<Rightarrow> string slice" where
  "result_after buf pre =
     (if zero_positions pre = [] then None
      else Some (map (\<lambda>(lo, hi). string_of_bytes (take (hi - lo) (drop lo buf)))
                   (segment_bounds (zero_positions pre))))"

subsection \<open>The adapter calls an operation makes\<close>

text \<open>
  To state which adapter calls an operation of the facade makes, a platform is wrapped so
  that every adapter call is also appended, with its arguments, to a log kept beside the
  state of the world. Results, buffers and the world are those of the wrapped platform.
\<close>

datatype call =
    Get_call string string "byte slice"
  | Set_call string string "byte slice" int
  | List_call string "byte slice"
  | Remove_call string string

definition traced :: "'w platform \<Rightarrow> ('w \<times> call list) platform" where
  "traced P =
     \<lparr>prefix = prefix P, stripPrefix = stripPrefix P,
      get = (\<lambda>path attr dest (w, log).
        case get P path attr dest w of
          (res, dest', w') \<Rightarrow> (res, dest', (w', log @ [Get_call path attr dest]))),
      set_op = (\<lambda>path attr data flags (w, log).
        case set_op P path attr data flags w of
          (err, w') \<Rightarrow> (err, (w', log @ [Set_call path attr data flags]))),
      list_op = (\<lambda>path dest (w, log).
        case list_op P path dest w of
          (res, dest', w') \<Rightarrow> (res, dest', (w', log @ [List_call path dest]))),
      remove_op = (\<lambda>path attr (w, log).
        case remove_op P path attr w of
          (err, w') \<Rightarrow> (err, (w', log @ [Remove_call path attr])))\<rparr>"

subsection \<open>A file system behind the adapter\<close>

text \<open>
  Modelled from the spec: the platform adapter's \<open>get\<close>, \<open>set\<close>, \<open>list\<close> and \<open>remove\<close>,
  which wrap the system calls and are not in the source at hand. The specification and
  the documentation comment of \<open>Getxattr\<close> say of them:
  \<^item> \<open>get\<close> "returns the number of bytes written into dest, or the required size if
    dest is empty/absent"; "on success, dest contains data associated with attr";
    "Getxattr returns error if dest was too small for attribute value";
  \<^item> \<open>list\<close> "returns bytes written or required size", the names being NUL terminated;
  \<^item> \<open>set\<close> forwards \<open>flags\<close> to the kernel, 0 meaning create-or-replace and the
    meaning of other values depending on the platform;
  \<^item> reading or removing an attribute that is not there fails with the platform's
    "attribute absent" error code;
  \<^item> a path may or may not grant write permission.

  The state of the world is a file system: for each path the attributes stored on it
  (full names, in the order of listing, with their values), whether the path may be
  written, and the kernel's verdict on nonzero \<open>flags\<close> (given whether the attribute
  exists already).
\<close>

record fsys =
  xattrs :: "string \<Rightarrow> (string \<times> byte list) list"
  writable :: "string \<Rightarrow> bool"
  flag_error :: "int \<Rightarrow> bool \<Rightarrow> error"

definition EACCES :: error where
  "EACCES = Errno 13"

definition ERANGE :: error where
  "ERANGE = Errno 34"

definition bytes_of_string :: "string \<Rightarrow> byte list" where
  "bytes_of_string s = map of_char s"

text \<open>
  Copying \<open>data\<close> out to the caller's buffer \<open>dest\<close>: the size alone when \<open>dest\<close> is nil
  or empty, an error when it is too small, otherwise the data at the start of \<open>dest\<close>.
\<close>

definition copy_out :: "byte list \<Rightarrow> byte slice \<Rightarrow> (int \<times> error) \<times> byte list" where
  "copy_out data dest =
     (if elems dest = [] then ((int (length data), Nil_error), [])
      else if length (elems dest) < length data then ((- 1, ERANGE), elems dest)
      else ((int (length data), Nil_error), data @ drop (length data) (elems dest)))"

definition fs_get ::
  "goos \<Rightarrow> string \<Rightarrow> string \<Rightarrow> byte slice \<Rightarrow> fsys \<Rightarrow> (int \<times> error) \<times> byte list \<times> fsys" where
  "fs_get os path attr dest w =
     (case map_of (xattrs w path) attr of
        None \<Rightarrow> ((- 1, attr_absent os), elems dest, w)
      | Some data \<Rightarrow> (case copy_out data dest of (res, dest') \<Rightarrow> (res, dest', w)))"

definition fs_list ::
  "string \<Rightarrow> byte slice \<Rightarrow> fsys \<Rightarrow> (int \<times> error) \<times> byte list \<times> fsys" where
  "fs_list path dest w =
     (case copy_out (concat (map (\<lambda>(name, data). bytes_of_string name @ [0]) (xattrs w path))) dest
      of (res, dest') \<Rightarrow> (res, dest', w))"

definition fs_set ::
  "string \<Rightarrow> string \<Rightarrow> byte slice \<Rightarrow> int \<Rightarrow> fsys \<Rightarrow> error \<times> fsys" where
  "fs_set path attr data flags w =
     (if \<not> writable w path then (EACCES, w)
      else if flags \<noteq> 0 \<and> flag_error w flags (map_of (xattrs w path) attr \<noteq> None) \<noteq> Nil_error
      then (flag_error w flags (map_of (xattrs w path) attr \<noteq> None), w)
      else (Nil_error,
            w\<lparr>xattrs := (xattrs w)(path := AList.update attr (elems data) (xattrs w path))\<rparr>))"

definition fs_remove :: "goos \<Rightarrow> string \<Rightarrow> string \<Rightarrow> fsys \<Rightarrow> error \<times> fsys" where
  "fs_remove os path attr w =
     (if \<not> writable w path then (EACCES, w)
      else if map_of (xattrs w path) attr = None then (attr_absent os, w)
      else (Nil_error, w\<lparr>xattrs := (xattrs w)(path := AList.delete attr (xattrs w path))\<rparr>))"

text \<open>
  The platform over this file system, for an operating system \<open>os\<close>, a prefix and a
  \<open>stripPrefix\<close>.
\<close>

definition fs_platform ::
  "goos \<Rightarrow> string \<Rightarrow> (string slice \<Rightarrow> string slice outcome) \<Rightarrow> fsys platform" where
  "fs_platform os pfx strip =
     \<lparr>prefix = pfx, stripPrefix = strip, get = fs_get os, set_op = fs_set,
      list_op = fs_list, remove_op = fs_remove os\<rparr>"

subsection \<open>A platform with scripted replies\<close>

text \<open>
  The facade must cope with a world that changes between two of its calls. A platform
  whose state is the list of the replies still to come makes such runs concrete: every
  adapter call consumes the next reply, whatever its arguments (and fails with \<open>EIO\<close>
  when the script is exhausted). The length of the remaining script tells how many calls
  were made.
\<close>

type_synonym script = "((int \<times> error) \<times> byte list) list"

definition next_reply :: "script \<Rightarrow> (int \<times> error) \<times> byte list \<times> script" where
  "next_reply w = (case w of [] \<Rightarrow> ((- 1, Errno 5), [], []) | r # rs \<Rightarrow> (fst r, snd r, rs))"

definition next_error :: "script \<Rightarrow> error \<times> script" where
  "next_error w = (case w of [] \<Rightarrow> (Errno 5, []) | r # rs \<Rightarrow> (snd (fst r), rs))"

definition scripted :: "string \<Rightarrow> script platform" where
  "scripted pfx =
     \<lparr>prefix = pfx, stripPrefix = Returns,
      get = (\<lambda>path attr dest. next_reply),
      set_op = (\<lambda>path attr data flags. next_error),
      list_op = (\<lambda>path dest. next_reply),
      remove_op = (\<lambda>path attr. next_error)\<rparr>"

subsection \<open>An example file system\<close>

text \<open>
  One writable file \<open>/tmp/f\<close> with the attributes \<open>user.foo = "bar"\<close> and an empty
  \<open>user.empty\<close>; every other path has no attribute and may not be written. Nonzero flags
  are refused with \<open>EINVAL\<close>.
\<close>

definition example_fs :: fsys where
  "example_fs =
     \<lparr>xattrs = (\<lambda>p. if p = ''/tmp/f''
                     then [(''user.foo'', [0x62, 0x61, 0x72]), (''user.empty'', [])] else []),
      writable = (\<lambda>p. p = ''/tmp/f''),
      flag_error = (\<lambda>flags exists. Errno 22)\<rparr>"

definition linux_fs :: "fsys platform" where
  "linux_fs = fs_platform Linux ''user.'' Returns"

section \<open>Properties of the decoder\<close>

lemma zero_positions_snoc:
  "zero_positions (pre @ [b]) = zero_positions pre @ (if b = 0 then [length pre] else [])"
  by (auto simp: zero_positions_def nth_append intro: filter_cong)

lemma zero_positions_empty: "(zero_positions buf = []) = (0 \<notin> set buf)"
  by (auto simp: zero_positions_def filter_empty_conv in_set_conv_nth)

lemma length_zero_positions: "length (zero_positions buf) = count_list buf 0"
proof (induction buf rule: rev_induct)
  case Nil
  then show ?case by (simp add: zero_positions_def)
next
  case (snoc b buf)
  then show ?case by (simp add: zero_positions_snoc)
qed

lemma zip_starts_snoc:
  "zip (a # map Suc (zs @ [k])) (zs @ [k]) =
   zip (a # map Suc zs) zs @ [(last (a # map Suc zs), k)]"
  by (induction zs arbitrary: a) auto

lemma segment_bounds_snoc:
  "segment_bounds (zs @ [k]) = segment_bounds zs @ [(last (0 # map Suc zs), k)]"
  unfolding segment_bounds_def by (rule zip_starts_snoc)

lemma segment_bounds_Nil: "segment_bounds [] = []"
  by (simp add: segment_bounds_def)

lemma length_segment_bounds: "length (segment_bounds zs) = length zs"
  by (simp add: segment_bounds_def)

lemma offset_after_le: "offset_after pre \<le> length pre"
proof (cases "zero_positions pre = []")
  case True
  then show ?thesis by (simp add: offset_after_def)
next
  case False
  then have "last (zero_positions pre) \<in> set (zero_positions pre)" by simp
  then have "last (zero_positions pre) < length pre" by (simp add: zero_positions_def)
  then show ?thesis using False by (simp add: offset_after_def last_map)
qed

text \<open>
  The invariant of the loop: started in the state reached after \<open>pre\<close>, the loop over the
  remaining bytes ends in the state reached after the whole buffer, and no slice
  expression on the way is out of range.
\<close>

lemma nullTermLoop_invariant:
  "buf = pre @ rest \<Longrightarrow>
   nullTermLoop buf (int (length pre)) rest (int (offset_after pre)) (result_after buf pre)
     = Returns (result_after buf buf)"
proof (induction rest arbitrary: pre)
  case Nil
  then show ?case by simp
next
  case (Cons b rest)
  have buf: "buf = (pre @ [b]) @ rest" using Cons.prems by simp
  note IH = Cons.IH [OF buf]
  show ?case
  proof (cases "b = 0")
    case True
    have off: "offset_after (pre @ [b]) = length pre + 1"
      by (simp add: offset_after_def zero_positions_snoc True)
    have sl: "slice_go buf (int (offset_after pre)) (int (length pre))
        = Returns (take (length pre - offset_after pre) (drop (offset_after pre) buf))"
      using offset_after_le [of pre] Cons.prems by (simp add: slice_go_def nat_diff_distrib')
    have res: "result_after buf (pre @ [b]) =
       append_go (result_after buf pre)
         (string_of_bytes (take (length pre - offset_after pre) (drop (offset_after pre) buf)))"
      by (simp add: result_after_def zero_positions_snoc True segment_bounds_snoc append_go_def
          elems_def offset_after_def segment_bounds_Nil)
    show ?thesis using IH [unfolded off res] True by (simp add: sl add.commute)
  next
    case False
    have "offset_after (pre @ [b]) = offset_after pre"
      "result_after buf (pre @ [b]) = result_after buf pre"
      by (simp_all add: offset_after_def result_after_def zero_positions_snoc False)
    then show ?thesis using IH False by (simp add: add.commute)
  qed
qed

lemma nullTermToStrings_returns: "nullTermToStrings buf = Returns (result_after buf buf)"
  using nullTermLoop_invariant [of buf "[]" buf]
  by (simp add: nullTermToStrings_def offset_after_def result_after_def zero_positions_def)

text \<open>
  Claim C2. For every byte buffer, \<open>nullTermToStrings\<close> returns (it never panics), and
  the names it returns are, in order, the segments terminated by the zero bytes of the
  buffer: one name per zero byte, the \<open>k\<close>-th name being the bytes from the position
  after the previous zero byte (or from the start of the buffer) up to, and without, the
  \<open>k\<close>-th zero byte. Bytes after the last zero byte contribute nothing, and a buffer
  without a zero byte yields no name (the result is the nil slice).
\<close>

theorem nullTermToStrings_terminated_segments:
  "\<exists>names. nullTermToStrings buf = Returns names \<and>
     elems names = map string_of_bytes (terminated_segments buf) \<and>
     length (elems names) = count_list buf 0 \<and>
     (names = None) = (0 \<notin> set buf)"
proof (cases "zero_positions buf = []")
  case True
  then show ?thesis
    using zero_positions_empty [of buf] length_zero_positions [of buf]
    by (simp add: nullTermToStrings_returns result_after_def elems_def terminated_segments_def
        segment_bounds_Nil)
next
  case False
  then show ?thesis
    using zero_positions_empty [of buf] length_zero_positions [of buf]
    by (simp add: nullTermToStrings_returns result_after_def elems_def terminated_segments_def
        length_segment_bounds split_def o_def)
qed

theorem nullTermToStrings_terminated_segments_witness:
  "nullTermToStrings [0x61, 0x62, 0, 0x63, 0, 0, 0x64] = Returns (Some [''ab'', ''c'', ''''])"
proof -
  have segs: "map string_of_bytes (terminated_segments [0x61, 0x62, 0, 0x63, 0, 0, 0x64])
      = [''ab'', ''c'', '''']"
    by code_simp
  show ?thesis
    using nullTermToStrings_terminated_segments [of "[0x61, 0x62, 0, 0x63, 0, 0, 0x64]"]
    by (auto simp: segs elems_def)
qed

section \<open>Properties of the facade\<close>

lemma traced_sel:
  "prefix (traced P) = prefix P"
  "stripPrefix (traced P) = stripPrefix P"
  "get (traced P) path attr dest (w, log) =
     (case get P path attr dest w of
        (res, dest', w') \<Rightarrow> (res, dest', (w', log @ [Get_call path attr dest])))"
  "set_op (traced P) path attr data flags (w, log) =
     (case set_op P path attr data flags w of
        (err, w') \<Rightarrow> (err, (w', log @ [Set_call path attr data flags])))"
  "list_op (traced P) path dest (w, log) =
     (case list_op P path dest w of
        (res, dest', w') \<Rightarrow> (res, dest', (w', log @ [List_call path dest])))"
  "remove_op (traced P) path attr (w, log) =
     (case remove_op P path attr w of
        (err, w') \<Rightarrow> (err, (w', log @ [Remove_call path attr])))"
  by (simp_all add: traced_def)

lemma scripted_sel:
  "prefix (scripted pfx) = pfx"
  "stripPrefix (scripted pfx) = Returns"
  "get (scripted pfx) path attr dest = next_reply"
  "set_op (scripted pfx) path attr data flags = next_error"
  "list_op (scripted pfx) path dest = next_reply"
  "remove_op (scripted pfx) path attr = next_error"
  by (simp_all add: scripted_def)

lemma fs_platform_sel:
  "prefix (fs_platform os pfx strip) = pfx"
  "stripPrefix (fs_platform os pfx strip) = strip"
  "get (fs_platform os pfx strip) = fs_get os"
  "set_op (fs_platform os pfx strip) = fs_set"
  "list_op (fs_platform os pfx strip) = fs_list"
  "remove_op (fs_platform os pfx strip) = fs_remove os"
  by (simp_all add: fs_platform_def)

subsection \<open>Errors of the high-level operations\<close>

text \<open>
  Claim C1, as amended. Whenever \<open>Get\<close>, \<open>Set\<close> or \<open>Remove\<close> returns a non-nil error,
  that error is a pointer to an \<open>XAttrError\<close> whose \<open>Op\<close> names the system call, whose
  \<open>Path\<close> is the caller's path, whose \<open>Err\<close> is the adapter's non-nil error, and whose
  \<open>Attr\<close> is the namespace prefix followed by the caller's attribute name: the three
  functions overwrite \<open>attr\<close> with \<open>prefix + attr\<close> before they build the error. (\<open>Get\<close>
  returns the nil slice beside the error.) The \<open>Attr\<close> field is the caller's name itself
  only on a platform whose prefix is empty.
\<close>

theorem error_carries_path_and_prefixed_attr:
  "(Get P path attr w = (Returns (val, err), w') \<and> err \<noteq> Nil_error \<longrightarrow>
      val = None \<and>
      (\<exists>e. err = Of_XAttrError (Ptr e) \<and> Op e = ''getxattr'' \<and> Path e = path \<and>
           Attr e = prefix P @ attr \<and> Err e \<noteq> Nil_error)) \<and>
   (Set P path attr data w = (err, w') \<and> err \<noteq> Nil_error \<longrightarrow>
      (\<exists>e. err = Of_XAttrError (Ptr e) \<and> Op e = ''setxattr'' \<and> Path e = path \<and>
           Attr e = prefix P @ attr \<and> Err e \<noteq> Nil_error)) \<and>
   (Remove P path attr w = (err, w') \<and> err \<noteq> Nil_error \<longrightarrow>
      (\<exists>e. err = Of_XAttrError (Ptr e) \<and> Op e = ''removexattr'' \<and> Path e = path \<and>
           Attr e = prefix P @ attr \<and> Err e \<noteq> Nil_error))"
proof (intro conjI impI)
  assume "Get P path attr w = (Returns (val, err), w') \<and> err \<noteq> Nil_error"
  then show "val = None"
    by (auto simp: Get_def Let_def split: prod.splits if_splits outcome.splits)
next
  assume "Get P path attr w = (Returns (val, err), w') \<and> err \<noteq> Nil_error"
  then show "\<exists>e. err = Of_XAttrError (Ptr e) \<and> Op e = ''getxattr'' \<and> Path e = path \<and>
           Attr e = prefix P @ attr \<and> Err e \<noteq> Nil_error"
    by (auto simp: Get_def Let_def split: prod.splits if_splits outcome.splits)
next
  assume "Set P path attr data w = (err, w') \<and> err \<noteq> Nil_error"
  then show "\<exists>e. err = Of_XAttrError (Ptr e) \<and> Op e = ''setxattr'' \<and> Path e = path \<and>
           Attr e = prefix P @ attr \<and> Err e \<noteq> Nil_error"
    by (auto simp: Set_def Let_def split: prod.splits if_splits)
next
  assume "Remove P path attr w = (err, w') \<and> err \<noteq> Nil_error"
  then show "\<exists>e. err = Of_XAttrError (Ptr e) \<and> Op e = ''removexattr'' \<and> Path e = path \<and>
           Attr e = prefix P @ attr \<and> Err e \<noteq> Nil_error"
    by (auto simp: Remove_def Let_def split: prod.splits if_splits)
qed

text \<open>
  On the example file system, reading the attribute \<open>nope\<close>, which \<open>/tmp/f\<close> does not
  have, fails with an error for the path \<open>/tmp/f\<close> and the attribute \<open>user.nope\<close>.
\<close>

theorem error_carries_path_and_prefixed_attr_witness:
  "\<exists>e. fst (Get linux_fs ''/tmp/f'' ''nope'' example_fs) = Returns (None, Of_XAttrError (Ptr e)) \<and>
       Path e = ''/tmp/f'' \<and> Attr e = ''user.nope''"
proof -
  have r: "Get linux_fs ''/tmp/f'' ''nope'' example_fs =
     (Returns (None, Of_XAttrError (Ptr (XAttrError ''getxattr'' ''/tmp/f'' ''user.nope'' (Errno 61)))),
      example_fs)"
    by (simp add: Get_def Getxattr_def Let_def linux_fs_def fs_platform_sel fs_get_def
        example_fs_def attr_absent_def ENODATA_def elems_def)
  show ?thesis
    using error_carries_path_and_prefixed_attr [of linux_fs "''/tmp/f''" "''nope''" example_fs
        None "Of_XAttrError (Ptr (XAttrError ''getxattr'' ''/tmp/f'' ''user.nope'' (Errno 61)))"
        example_fs] r
    by (simp add: linux_fs_def fs_platform_sel)
qed

text \<open>
  The claim as first stated, with \<open>Attr\<close> equal to the caller's unprefixed name, fails
  wherever the prefix is not empty. With the prefix \<open>user.\<close> of the package comment and
  an adapter call that fails, the errors of \<open>Get\<close>, \<open>Set\<close> and \<open>Remove\<close> for the
  attribute \<open>foo\<close> carry \<open>user.foo\<close>.
\<close>

theorem error_attr_is_prefixed_counterexample:
  "fst (Get (scripted ''user.'') ''/tmp/f'' ''foo'' [((- 1, Errno 61), [])]) =
     Returns (None, Of_XAttrError (Ptr (XAttrError ''getxattr'' ''/tmp/f'' ''user.foo'' (Errno 61)))) \<and>
   fst (Set (scripted ''user.'') ''/tmp/f'' ''foo'' (Some [1]) [((- 1, Errno 13), [])]) =
     Of_XAttrError (Ptr (XAttrError ''setxattr'' ''/tmp/f'' ''user.foo'' (Errno 13))) \<and>
   fst (Remove (scripted ''user.'') ''/tmp/f'' ''foo'' [((- 1, Errno 61), [])]) =
     Of_XAttrError (Ptr (XAttrError ''removexattr'' ''/tmp/f'' ''user.foo'' (Errno 61))) \<and>
   Attr (XAttrError ''getxattr'' ''/tmp/f'' ''user.foo'' (Errno 61)) \<noteq> ''foo''"
  by (simp add: Get_def Set_def Remove_def Getxattr_def Setxattr_def Removexattr_def Let_def
      scripted_sel next_reply_def next_error_def)

subsection \<open>Recognising an absent attribute\<close>

text \<open>
  Claim C3. \<open>IsNotExist(err)\<close> returns true exactly when \<open>err\<close> is a pointer to an
  \<open>XAttrError\<close> whose \<open>Err\<close> equals the platform's "attribute absent" constant
  (\<open>ENOATTR\<close> on Darwin, \<open>ENODATA\<close> on Linux). On every value that is not a
  \<open>*XAttrError\<close> it returns false; in particular on the raw \<open>syscall.Errno\<close> of an absent
  attribute, as a low-level operation returns it. (On a nil \<open>*XAttrError\<close> the call
  panics, so it does not return true there either.)
\<close>

theorem IsNotExist_true_only_for_wrapped_absent:
  "(IsNotExist os err = Returns True) =
     (\<exists>e. err = Of_XAttrError (Ptr e) \<and> Err e = attr_absent os) \<and>
   ((\<forall>p. err \<noteq> Of_XAttrError p) \<longrightarrow> IsNotExist os err = Returns False) \<and>
   IsNotExist os (attr_absent os) = Returns False"
proof -
  have 1: "(IsNotExist os err = Returns True) =
     (\<exists>e. err = Of_XAttrError (Ptr e) \<and> Err e = attr_absent os)"
  proof (cases err)
    case (Of_XAttrError p)
    then show ?thesis
      by (cases p; cases os) (auto simp: IsNotExist_def attr_absent_def)
  qed (auto simp: IsNotExist_def)
  have 2: "(\<forall>p. err \<noteq> Of_XAttrError p) \<longrightarrow> IsNotExist os err = Returns False"
    by (cases err) (auto simp: IsNotExist_def)
  have 3: "IsNotExist os (attr_absent os) = Returns False"
    by (cases os) (simp_all add: IsNotExist_def attr_absent_def ENOATTR_def ENODATA_def)
  from 1 2 3 show ?thesis by blast
qed

theorem IsNotExist_true_only_for_wrapped_absent_witness:
  "IsNotExist Linux (Errno 61) = Returns False \<and>
   IsNotExist Linux (Of_XAttrError (Ptr (XAttrError ''getxattr'' ''/tmp/f'' ''user.foo'' (Errno 61))))
     = Returns True \<and>
   IsNotExist Darwin (Of_XAttrError (Ptr (XAttrError ''getxattr'' ''/tmp/f'' ''foo'' (Errno 61))))
     \<noteq> Returns True"
  using IsNotExist_true_only_for_wrapped_absent [of Linux "Errno 61"]
    IsNotExist_true_only_for_wrapped_absent [of Linux
      "Of_XAttrError (Ptr (XAttrError ''getxattr'' ''/tmp/f'' ''user.foo'' (Errno 61)))"]
    IsNotExist_true_only_for_wrapped_absent [of Darwin
      "Of_XAttrError (Ptr (XAttrError ''getxattr'' ''/tmp/f'' ''foo'' (Errno 61)))"]
  by (simp add: attr_absent_def ENODATA_def ENOATTR_def)

subsection \<open>Writing and reading back\<close>

lemma fs_Set_success:
  assumes "Set (fs_platform os pfx strip) path attr val w = (Nil_error, w1)"
  shows "writable w path \<and>
     w1 = w\<lparr>xattrs := (xattrs w)(path := AList.update (pfx @ attr) (elems val) (xattrs w path))\<rparr>"
  using assms
  by (auto simp: Set_def Setxattr_def Let_def fs_platform_sel fs_set_def EACCES_def
      split: if_splits)

lemma fs_Get_stored:
  assumes "map_of (xattrs w path) (pfx @ attr) = Some data"
  shows "Get (fs_platform os pfx strip) path attr w = (Returns (Some data, Nil_error), w)"
proof (cases "data = []")
  case True
  then show ?thesis using assms
    by (simp add: Get_def Getxattr_def Let_def fs_platform_sel fs_get_def copy_out_def elems_def)
next
  case False
  then show ?thesis using assms
    by (simp add: Get_def Getxattr_def Let_def fs_platform_sel fs_get_def copy_out_def elems_def
        make_bytes_def slice_go_def)
qed

text \<open>
  Claim C4. Over the file system behind the adapter, for every path, attribute name and
  value: when \<open>Set(path, attr, value)\<close> returns nil (which it does only on a path with
  write permission), \<open>Get(path, attr)\<close> in the world \<open>Set\<close> left behind returns a non-nil
  slice with exactly the bytes of \<open>value\<close> and a nil error, and leaves the world as it is.
\<close>

theorem Set_then_Get_roundtrip:
  assumes "Set (fs_platform os pfx strip) path attr val w = (Nil_error, w1)"
  shows "writable w path \<and>
     Get (fs_platform os pfx strip) path attr w1 = (Returns (Some (elems val), Nil_error), w1)"
proof -
  from fs_Set_success [OF assms] have wr: "writable w path"
    and w1: "w1 = w\<lparr>xattrs := (xattrs w)(path := AList.update (pfx @ attr) (elems val) (xattrs w path))\<rparr>"
    by simp_all
  have "map_of (xattrs w1 path) (pfx @ attr) = Some (elems val)"
    by (simp add: w1 update_conv')
  from fs_Get_stored [OF this] wr show ?thesis by simp
qed

theorem Set_then_Get_roundtrip_witness:
  "\<exists>w1. Set linux_fs ''/tmp/f'' ''foo'' (Some [0x62, 0x61, 0x7a]) example_fs = (Nil_error, w1) \<and>
     Get linux_fs ''/tmp/f'' ''foo'' w1 = (Returns (Some [0x62, 0x61, 0x7a], Nil_error), w1)"
proof -
  obtain w1 where s: "Set linux_fs ''/tmp/f'' ''foo'' (Some [0x62, 0x61, 0x7a]) example_fs
      = (Nil_error, w1)"
    by (simp add: Set_def Setxattr_def Let_def linux_fs_def fs_platform_sel fs_set_def
        example_fs_def)
  show ?thesis
    using Set_then_Get_roundtrip [OF s [unfolded linux_fs_def]] s
    by (simp add: linux_fs_def elems_def)
qed

subsection \<open>Sizing the buffer\<close>

text \<open>
  Claim C5. Let the first call of \<open>Get\<close> report the size \<open>n\<close>, not zero, and let the
  second call, on the buffer of \<open>n\<close> zero bytes, report the size \<open>sz\<close> and leave the
  bytes \<open>buf\<close> in the buffer. Whenever \<open>Get\<close> then returns with a nil error, its value is
  a non-nil slice with exactly the first \<open>sz\<close> bytes of \<open>buf\<close>: it has length \<open>sz\<close>,
  whatever \<open>n\<close> was, so that bytes beyond \<open>sz\<close> are dropped and nothing is padded.
\<close>

theorem Get_truncates_to_reported_size:
  assumes "get P path (prefix P @ attr) None w = ((n, e1), d, w1)"
    and "n \<noteq> 0"
    and "get P path (prefix P @ attr) (Some (replicate (nat n) 0)) w1 = ((sz, e2), buf, w2)"
    and "Get P path attr w = (Returns (val, Nil_error), w')"
  shows "val = Some (take (nat sz) buf) \<and> length (take (nat sz) buf) = nat sz \<and>
         0 \<le> sz \<and> sz \<le> int (length buf) \<and> w' = w2"
  using assms
  by (auto simp: Get_def Getxattr_def Let_def make_bytes_def slice_go_def split: if_splits)

text \<open>
  A run in which the attribute shrinks between the two calls: 3 bytes are announced, 2
  are reported by the fill call, and 2 bytes are returned.
\<close>

theorem Get_truncates_to_reported_size_witness:
  "Get (scripted ''user.'') ''/tmp/f'' ''foo'' [((3, Nil_error), []), ((2, Nil_error), [7, 8, 9])]
     = (Returns (Some [7, 8], Nil_error), [])"
proof -
  let ?w = "[((3, Nil_error), []), ((2, Nil_error), [7, 8, 9])] :: script"
  have 1: "get (scripted ''user.'') ''/tmp/f'' (prefix (scripted ''user.'') @ ''foo'') None ?w
      = ((3, Nil_error), [], [((2, Nil_error), [7, 8, 9])])"
    by (simp add: scripted_sel next_reply_def)
  have 2: "get (scripted ''user.'') ''/tmp/f'' (prefix (scripted ''user.'') @ ''foo'')
      (Some (replicate (nat 3) 0)) [((2, Nil_error), [7, 8, 9])] = ((2, Nil_error), [7, 8, 9], [])"
    by (simp add: scripted_sel next_reply_def)
  obtain val err w' where r: "Get (scripted ''user.'') ''/tmp/f'' ''foo'' ?w = (Returns (val, err), w')"
    and e: "err = Nil_error"
    by (simp add: Get_def Getxattr_def Let_def make_bytes_def slice_go_def scripted_sel next_reply_def)
  show ?thesis
    using Get_truncates_to_reported_size [OF 1 _ 2 r [unfolded e]] r e
    by simp
qed

text \<open>
  Claim C6. When the size-discovery call succeeds with size 0, \<open>Get\<close> returns the
  non-nil empty byte slice and a nil error, and \<open>List\<close> returns the empty name list and a
  nil error. In both, the world is the one the first call left, and on a platform that
  logs its calls the log has grown by that one call only: no fill call is made.
\<close>

theorem zero_size_returns_empty:
  "(get P path (prefix P @ attr) None w = ((0, Nil_error), d, w1) \<longrightarrow>
      Get P path attr w = (Returns (Some [], Nil_error), w1) \<and>
      Get (traced P) path attr (w, log) =
        (Returns (Some [], Nil_error), (w1, log @ [Get_call path (prefix P @ attr) None]))) \<and>
   (list_op P path None w = ((0, Nil_error), d, w1) \<longrightarrow>
      List P path w = (Returns (Some [], Nil_error), w1) \<and>
      List (traced P) path (w, log) =
        (Returns (Some [], Nil_error), (w1, log @ [List_call path None])))"
  by (simp add: Get_def List_def Getxattr_def Listxattr_def traced_sel Let_def)

theorem zero_size_returns_empty_witness:
  "Get (traced linux_fs) ''/tmp/f'' ''empty'' (example_fs, []) =
     (Returns (Some [], Nil_error), (example_fs, [Get_call ''/tmp/f'' ''user.empty'' None])) \<and>
   List (traced linux_fs) ''/tmp/g'' (example_fs, []) =
     (Returns (Some [], Nil_error), (example_fs, [List_call ''/tmp/g'' None]))"
proof -
  have g: "get linux_fs ''/tmp/f'' (prefix linux_fs @ ''empty'') None example_fs
      = ((0, Nil_error), [], example_fs)"
    by (simp add: linux_fs_def fs_platform_sel fs_get_def example_fs_def copy_out_def elems_def)
  have l: "list_op linux_fs ''/tmp/g'' None example_fs = ((0, Nil_error), [], example_fs)"
    by (simp add: linux_fs_def fs_platform_sel fs_list_def example_fs_def copy_out_def elems_def)
  show ?thesis
    using zero_size_returns_empty [of linux_fs "''/tmp/f''" "''empty''" example_fs "[]" example_fs "[]"]
      zero_size_returns_empty [of linux_fs "''/tmp/g''" "''empty''" example_fs "[]" example_fs "[]"]
      g l
    by (simp add: linux_fs_def fs_platform_sel)
qed

text \<open>
  Claim C9. In \<open>Get\<close> and in \<open>List\<close>, let the first call report a positive size \<open>n\<close>
  and the fill call, on the buffer of \<open>n\<close> bytes, succeed and report \<open>sz\<close>. The slice
  expression \<open>buf[:size]\<close> panics exactly when \<open>sz\<close> is negative or larger than \<open>n\<close>;
  nothing in the code checks \<open>sz\<close> before. So \<open>Get\<close> panics if and only if the adapter
  reports such a size, and \<open>List\<close> panics if and only if it does or \<open>stripPrefix\<close>
  panics on the decoded names (the decoder itself never panics).
\<close>

theorem slice_in_bounds_iff_size_within_buffer:
  "(get P path (prefix P @ attr) None w = ((n, Nil_error), d, w1) \<and> 0 < n \<and>
    get P path (prefix P @ attr) (Some (replicate (nat n) 0)) w1 = ((sz, Nil_error), buf, w2) \<and>
    length buf = nat n \<longrightarrow>
      (fst (Get P path attr w) = Panics) = (sz < 0 \<or> n < sz)) \<and>
   (list_op P path None w = ((n, Nil_error), d, w1) \<and> 0 < n \<and>
    list_op P path (Some (replicate (nat n) 0)) w1 = ((sz, Nil_error), buf, w2) \<and>
    length buf = nat n \<longrightarrow>
      (fst (List P path w) = Panics) =
        (sz < 0 \<or> n < sz \<or>
         (\<exists>names. nullTermToStrings (take (nat sz) buf) = Returns names \<and>
                  stripPrefix P names = Panics)))"
proof -
  obtain names where "nullTermToStrings (take (nat sz) buf) = Returns names"
    by (simp add: nullTermToStrings_returns)
  then show ?thesis
    by (auto simp: Get_def List_def Getxattr_def Listxattr_def Let_def make_bytes_def slice_go_def
        split: outcome.splits)
qed

text \<open>
  Two runs in which the adapter breaks the guarantee: the fill call of \<open>Get\<close> reports 4
  bytes in a buffer of 3, and the fill call of \<open>List\<close> reports \<open>-1\<close> with a nil error.
\<close>

theorem slice_in_bounds_iff_size_within_buffer_witness:
  "fst (Get (scripted ''user.'') ''/tmp/f'' ''foo''
          [((3, Nil_error), []), ((4, Nil_error), [7, 8, 9])]) = Panics \<and>
   fst (List (scripted ''user.'') ''/tmp/f''
          [((3, Nil_error), []), ((- 1, Nil_error), [7, 0, 9])]) = Panics"
proof -
  let ?P = "scripted ''user.''"
  let ?r1 = "((3, Nil_error), []) :: (int \<times> error) \<times> byte list"
  let ?g2 = "((4, Nil_error), [7, 8, 9]) :: (int \<times> error) \<times> byte list"
  let ?l2 = "((- 1, Nil_error), [7, 0, 9]) :: (int \<times> error) \<times> byte list"
  have g: "get ?P ''/tmp/f'' (prefix ?P @ ''foo'') None [?r1, ?g2] = ((3, Nil_error), [], [?g2])"
    "get ?P ''/tmp/f'' (prefix ?P @ ''foo'') (Some (replicate (nat 3) 0)) [?g2]
       = ((4, Nil_error), [7, 8, 9], [])"
    by (simp_all add: scripted_sel next_reply_def)
  have l: "list_op ?P ''/tmp/f'' None [?r1, ?l2] = ((3, Nil_error), [], [?l2])"
    "list_op ?P ''/tmp/f'' (Some (replicate (nat 3) 0)) [?l2] = ((- 1, Nil_error), [7, 0, 9], [])"
    by (simp_all add: scripted_sel next_reply_def)
  have len: "length [7, 8, 9 :: byte] = nat 3" "length [7, 0, 9 :: byte] = nat 3"
    by simp_all
  show ?thesis
    using slice_in_bounds_iff_size_within_buffer
        [of ?P "''/tmp/f''" "''foo''" "[?r1, ?g2]" 3 "[]" "[?g2]" 4 "[7, 8, 9]" "[]"]
      slice_in_bounds_iff_size_within_buffer
        [of ?P "''/tmp/f''" "''foo''" "[?r1, ?l2]" 3 "[]" "[?l2]" "- 1" "[7, 0, 9]" "[]"]
      g l len
    by simp
qed

subsection \<open>Set and the low-level operations\<close>

text \<open>
  Claim C7. \<open>Set(path, attr, data)\<close> calls \<open>Setxattr\<close> once, with the path, the name
  \<open>prefix + attr\<close> (the prefix once), the data and the flags 0: the log of a platform
  that logs its calls grows by exactly that call. It returns nil when \<open>Setxattr\<close> does,
  and otherwise a pointer to the \<open>XAttrError\<close> with the operation \<open>setxattr\<close> around the
  error of \<open>Setxattr\<close>.
\<close>

theorem Set_prefix_once_flags_zero:
  "Set P path attr data w =
     (case Setxattr P path (prefix P @ attr) data 0 w of
        (err, w1) \<Rightarrow>
          (if err = Nil_error then Nil_error
           else Of_XAttrError (Ptr (XAttrError ''setxattr'' path (prefix P @ attr) err)), w1)) \<and>
   snd (snd (Set (traced P) path attr data (w, log))) =
     log @ [Set_call path (prefix P @ attr) data 0]"
  by (simp add: Set_def Setxattr_def traced_sel Let_def split: prod.splits)

theorem Set_prefix_once_flags_zero_witness:
  "Set (traced linux_fs) ''/tmp/f'' ''k'' (Some [1]) (example_fs, []) =
     (Nil_error,
      example_fs\<lparr>xattrs := (xattrs example_fs)(''/tmp/f'' :=
        [(''user.foo'', [0x62, 0x61, 0x72]), (''user.empty'', []), (''user.k'', [1])])\<rparr>,
      [Set_call ''/tmp/f'' ''user.k'' (Some [1]) 0]) \<and>
   Set (traced linux_fs) ''/tmp/g'' ''k'' (Some [1]) (example_fs, []) =
     (Of_XAttrError (Ptr (XAttrError ''setxattr'' ''/tmp/g'' ''user.k'' (Errno 13))),
      example_fs, [Set_call ''/tmp/g'' ''user.k'' (Some [1]) 0])"
proof -
  have "writable example_fs ''/tmp/f''" "\<not> writable example_fs ''/tmp/g''"
    "xattrs example_fs ''/tmp/f'' = [(''user.foo'', [0x62, 0x61, 0x72]), (''user.empty'', [])]"
    by (simp_all add: example_fs_def)
  then show ?thesis
    using Set_prefix_once_flags_zero [of "traced linux_fs" "''/tmp/f''" "''k''" "Some [1]" "(example_fs, [])" "[]"]
      Set_prefix_once_flags_zero [of "traced linux_fs" "''/tmp/g''" "''k''" "Some [1]" "(example_fs, [])" "[]"]
    by (simp add: Setxattr_def traced_sel linux_fs_def fs_platform_sel fs_set_def elems_def EACCES_def)
qed

text \<open>
  Claim C8. Each of \<open>Getxattr\<close>, \<open>Setxattr\<close>, \<open>Listxattr\<close> and \<open>Removexattr\<close> is, as a
  function of all its arguments and the world, the adapter function \<open>get\<close>, \<open>set\<close>,
  \<open>list\<close> and \<open>remove\<close>: the name goes through as given, the buffer is the caller's, and
  the error is the adapter's own. None of them depends on the prefix of the platform.
\<close>

theorem lowlevel_passthrough:
  "Getxattr P = get P \<and> Setxattr P = set_op P \<and> Listxattr P = list_op P \<and>
   Removexattr P = remove_op P \<and>
   Getxattr (P\<lparr>prefix := pfx\<rparr>) = Getxattr P \<and> Setxattr (P\<lparr>prefix := pfx\<rparr>) = Setxattr P \<and>
   Listxattr (P\<lparr>prefix := pfx\<rparr>) = Listxattr P \<and> Removexattr (P\<lparr>prefix := pfx\<rparr>) = Removexattr P"
  by (simp add: fun_eq_iff Getxattr_def Setxattr_def Listxattr_def Removexattr_def)

text \<open>
  On the example file system \<open>Getxattr\<close> finds \<open>user.foo\<close> under its full name only, and
  the errors are bare \<open>Errno\<close>s.
\<close>

theorem lowlevel_passthrough_witness:
  "Getxattr linux_fs ''/tmp/f'' ''user.foo'' None example_fs = ((3, Nil_error), [], example_fs) \<and>
   Getxattr linux_fs ''/tmp/f'' ''foo'' None example_fs = ((- 1, Errno 61), [], example_fs) \<and>
   Setxattr linux_fs ''/tmp/g'' ''user.foo'' None 0 example_fs = (Errno 13, example_fs)"
proof -
  have "map_of (xattrs example_fs ''/tmp/f'') ''user.foo'' = Some [0x62, 0x61, 0x72]"
    "map_of (xattrs example_fs ''/tmp/f'') ''foo'' = None"
    "\<not> writable example_fs ''/tmp/g''"
    by (simp_all add: example_fs_def)
  then show ?thesis
    using lowlevel_passthrough [of linux_fs "''''"]
    by (simp add: linux_fs_def fs_platform_sel fs_get_def fs_set_def copy_out_def elems_def
        attr_absent_def ENODATA_def EACCES_def)
qed

subsection \<open>The message of an error\<close>

text \<open>
  Claim C10, as amended. \<open>Error()\<close> on a pointer to an \<open>XAttrError\<close> returns
  \<open>Op + " " + Path + " " + Attr + ": " + Err.Error()\<close> whenever \<open>Err.Error()\<close> returns,
  and panics when that panics (as it does for a nil \<open>Err\<close>). An error returned by \<open>List\<close>
  has the operation \<open>listxattr\<close> and an empty \<open>Attr\<close>, so its message is
  \<open>"listxattr " + Path + " : " + Err.Error()\<close>: one space, the separator after the path,
  stands before the colon.
\<close>

theorem XAttrError_Error_format:
  "XAttrError_Error strerror (Ptr e) =
     (case error_Error strerror (Err e) of
        Panics \<Rightarrow> Panics
      | Returns msg \<Rightarrow> Returns (Op e @ '' '' @ Path e @ '' '' @ Attr e @ '': '' @ msg)) \<and>
   (List P path w = (Returns (names, err), w') \<and> err \<noteq> Nil_error \<longrightarrow>
      (\<exists>cause. cause \<noteq> Nil_error \<and>
         err = Of_XAttrError (Ptr (XAttrError ''listxattr'' path [] cause)) \<and>
         error_Error strerror err =
           (case error_Error strerror cause of
              Panics \<Rightarrow> Panics
            | Returns msg \<Rightarrow> Returns (''listxattr '' @ path @ '' : '' @ msg))))"
proof (intro conjI impI)
  show "XAttrError_Error strerror (Ptr e) =
     (case error_Error strerror (Err e) of
        Panics \<Rightarrow> Panics
      | Returns msg \<Rightarrow> Returns (Op e @ '' '' @ Path e @ '' '' @ Attr e @ '': '' @ msg))"
    by (cases e) (simp split: outcome.splits)
next
  assume "List P path w = (Returns (names, err), w') \<and> err \<noteq> Nil_error"
  then have "\<exists>cause. cause \<noteq> Nil_error \<and>
      err = Of_XAttrError (Ptr (XAttrError ''listxattr'' path [] cause))"
    by (auto simp: List_def split: prod.splits if_splits outcome.splits)
  then obtain cause where c: "cause \<noteq> Nil_error"
    "err = Of_XAttrError (Ptr (XAttrError ''listxattr'' path [] cause))"
    by blast
  have "error_Error strerror err =
      (case error_Error strerror cause of
         Panics \<Rightarrow> Panics
       | Returns msg \<Rightarrow> Returns (''listxattr '' @ path @ '' : '' @ msg))"
    by (simp add: c split: outcome.splits)
  with c show "\<exists>cause. cause \<noteq> Nil_error \<and>
         err = Of_XAttrError (Ptr (XAttrError ''listxattr'' path [] cause)) \<and>
         error_Error strerror err =
           (case error_Error strerror cause of
              Panics \<Rightarrow> Panics
            | Returns msg \<Rightarrow> Returns (''listxattr '' @ path @ '' : '' @ msg))"
    by blast
qed

theorem XAttrError_Error_format_witness:
  "\<exists>names err w'.
     List (scripted ''user.'') ''/tmp/f'' [((- 1, Errno 13), [])] = (Returns (names, err), w') \<and>
     error_Error (\<lambda>n. ''permission denied'') err
       = Returns ''listxattr /tmp/f : permission denied''"
proof -
  have r: "List (scripted ''user.'') ''/tmp/f'' [((- 1, Errno 13), [])] =
      (Returns (None, Of_XAttrError (Ptr (XAttrError ''listxattr'' ''/tmp/f'' [] (Errno 13)))), [])"
    by (simp add: List_def Listxattr_def scripted_sel next_reply_def)
  show ?thesis
    using XAttrError_Error_format [of "\<lambda>n. ''permission denied''"
        "XAttrError ''listxattr'' ''/tmp/f'' [] (Errno 13)" "scripted ''user.''" "''/tmp/f''"
        "[((- 1, Errno 13), [])]" None
        "Of_XAttrError (Ptr (XAttrError ''listxattr'' ''/tmp/f'' [] (Errno 13)))" "[]"] r
    by simp
qed

text \<open>
  The message of a list error has no second space before the colon: for the path
  \<open>/tmp/f\<close> and a cause with the message "permission denied" it is
  "listxattr /tmp/f : permission denied".
\<close>

theorem list_error_single_space_counterexample:
  "fst (List (scripted ''user.'') ''/tmp/f'' [((- 1, Errno 13), [])]) =
     Returns (None, Of_XAttrError (Ptr (XAttrError ''listxattr'' ''/tmp/f'' [] (Errno 13)))) \<and>
   XAttrError_Error (\<lambda>n. ''permission denied'')
       (Ptr (XAttrError ''listxattr'' ''/tmp/f'' [] (Errno 13)))
     = Returns ''listxattr /tmp/f : permission denied'' \<and>
   ''listxattr /tmp/f : permission denied'' \<noteq> ''listxattr /tmp/f  : permission denied''"
  by (simp add: List_def Listxattr_def scripted_sel next_reply_def)

end
